theory Spec2Isabelle
  imports Complex_Main
begin

section \<open>Withings Token Guardian: the relay and its two POST routes\<close>

text \<open>
  The service is one Python module, \<^verbatim>\<open>main.py\<close>. Two routes, \<^verbatim>\<open>refresh_needed\<close>
  (\<^verbatim>\<open>POST /webhook/refresh-needed\<close>) and \<^verbatim>\<open>manual_refresh\<close> (\<^verbatim>\<open>POST /refresh\<close>),
  check a shared secret and then call \<^verbatim>\<open>refresh_withings_token\<close>, which posts once to
  the upstream service and shapes the answer into a dict.

  What the module takes from outside is made a parameter of the model: the environment
  variables (a record), the upstream service (a function from the request sent to what
  \<^verbatim>\<open>client.post\<close> does with it), the clock (the string that
  \<^verbatim>\<open>datetime.utcnow().isoformat()\<close> returns), the text of the exception that
  rendering a body raises, and the inbound request. Exceptions
  are values of a sum type, and the outbound calls are recorded in an explicit state.
  Calls of \<^verbatim>\<open>logger\<close> only write to the process log and are left out; where the
  argument of such a call can itself raise (line 79) the raise is modelled.
\<close>

subsection \<open>Python values\<close>

text \<open>
  A Python \<^verbatim>\<open>str\<close> is a sequence of code points. Those that UTF-8 can encode are kept
  as the bytes of their encoding; a lone surrogate (U+D800 to U+DFFF), which
  \<^verbatim>\<open>json.loads\<close> returns for an escape such as \<^verbatim>\<open>\ud800\<close> and which has no
  encoding, is kept as its code point. A string literal of the module is all bytes.
\<close>

datatype pychar = Byte char | Surrogate nat

type_synonym pystr = "pychar list"

text \<open>A Python \<^verbatim>\<open>float\<close>: \<^verbatim>\<open>json.loads\<close> returns \<^verbatim>\<open>inf\<close> for \<^verbatim>\<open>1e400\<close> and accepts \<^verbatim>\<open>NaN\<close>.\<close>

datatype pyfloat = Finite real | PosInf | NegInf | NaN

text \<open>
  What \<^verbatim>\<open>response.json()\<close> can return, and what the routes put in their bodies.
  An object parsed from JSON is an association list read with \<open>map_of\<close>; its keys are
  Python strings.
\<close>

datatype json =
    JNull
  | JBool bool
  | JInt int
  | JFloat pyfloat
  | JString pystr
  | JArr "json list"
  | JObj "(pystr \<times> json) list"

text \<open>A \<^verbatim>\<open>str\<close> that is plain text, such as a literal or the text of an exception.\<close>

abbreviation JStr :: "string \<Rightarrow> json" where
  "JStr s \<equiv> JString (map Byte s)"

text \<open>A dict that the module builds itself: its keys are literals, in source order.\<close>

type_synonym pydict = "(string \<times> json) list"

text \<open>
  The exceptions that occur, each with the text of \<^verbatim>\<open>str(e)\<close>; all of them are
  subclasses of \<^verbatim>\<open>Exception\<close>. \<open>HTTPException\<close> is FastAPI's; \<open>AttributeError\<close>
  carries its message and \<open>KeyError\<close> its key; \<open>JSONDecodeError\<close> is what
  \<^verbatim>\<open>response.json()\<close> raises and \<open>TransportError\<close> what \<^verbatim>\<open>client.post\<close> raises.
  \<open>EncodeError\<close> is what \<^verbatim>\<open>JSONResponse(...)\<close> raises on content it cannot render: a
  \<^verbatim>\<open>ValueError\<close> for a float that is not finite, a \<^verbatim>\<open>UnicodeEncodeError\<close> for a lone
  surrogate.
\<close>

datatype exn =
    HTTPException int string
  | AttributeError string
  | KeyError string
  | JSONDecodeError string
  | TransportError string
  | EncodeError string

definition digit_char :: "nat \<Rightarrow> char" where
  "digit_char d = ''0123456789'' ! d"

fun str_nat :: "nat \<Rightarrow> string" where
  "str_nat n = (if n < 10 then [digit_char n] else str_nat (n div 10) @ [digit_char (n mod 10)])"

declare str_nat.simps [simp del]

text \<open>\<^verbatim>\<open>str\<close> of a Python int, as an f-string formats it.\<close>

definition str_int :: "int \<Rightarrow> string" where
  "str_int i = (if i < 0 then ''-'' @ str_nat (nat (- i)) else str_nat (nat i))"

definition quoted :: "string \<Rightarrow> string" where
  "quoted s = [CHR 0x27] @ s @ [CHR 0x27]"

text \<open>
  \<^verbatim>\<open>str(e)\<close>. A \<^verbatim>\<open>KeyError\<close> prints the \<^verbatim>\<open>repr\<close> of its key (the only key
  looked up is \<^verbatim>\<open>success\<close>), Starlette's \<^verbatim>\<open>HTTPException\<close> prints status and
  detail.
\<close>

fun str_exn :: "exn \<Rightarrow> string" where
  "str_exn (HTTPException s d) = str_int s @ '': '' @ d"
| "str_exn (AttributeError m) = m"
| "str_exn (KeyError k) = quoted k"
| "str_exn (JSONDecodeError m) = m"
| "str_exn (TransportError m) = m"
| "str_exn (EncodeError m) = m"

text \<open>
  Truth value of a Python object, as \<^verbatim>\<open>if refresh_result["success"]:\<close> takes it. Of
  the floats only zero is false.
\<close>

fun truthy :: "json \<Rightarrow> bool" where
  "truthy JNull = False"
| "truthy (JBool b) = b"
| "truthy (JInt i) = (i \<noteq> 0)"
| "truthy (JFloat x) = (x \<noteq> Finite 0)"
| "truthy (JString s) = (s \<noteq> [])"
| "truthy (JArr xs) = (xs \<noteq> [])"
| "truthy (JObj d) = (d \<noteq> [])"

fun type_name :: "json \<Rightarrow> string" where
  "type_name JNull = ''NoneType''"
| "type_name (JBool b) = ''bool''"
| "type_name (JInt i) = ''int''"
| "type_name (JFloat x) = ''float''"
| "type_name (JString s) = ''str''"
| "type_name (JArr xs) = ''list''"
| "type_name (JObj d) = ''dict''"

text \<open>\<^verbatim>\<open>d.get(k)\<close> on a dict of the module: the value, or \<^verbatim>\<open>None\<close> when the key is absent.\<close>

definition dict_get :: "pydict \<Rightarrow> string \<Rightarrow> json" where
  "dict_get d k = (case map_of d k of None \<Rightarrow> JNull | Some v \<Rightarrow> v)"

text \<open>\<^verbatim>\<open>d[k]\<close> on a dict: raises \<^verbatim>\<open>KeyError\<close> when the key is absent.\<close>

definition dict_index :: "pydict \<Rightarrow> string \<Rightarrow> exn + json" where
  "dict_index d k = (case map_of d k of None \<Rightarrow> Inl (KeyError k) | Some v \<Rightarrow> Inr v)"

text \<open>
  \<^verbatim>\<open>data.get(k)\<close> where \<^verbatim>\<open>data\<close> is whatever \<^verbatim>\<open>response.json()\<close> returned and
  \<^verbatim>\<open>k\<close> a literal: only a dict has the method.
\<close>

fun json_get :: "json \<Rightarrow> string \<Rightarrow> exn + json" where
  "json_get (JObj d) k = Inr (case map_of d (map Byte k) of None \<Rightarrow> JNull | Some v \<Rightarrow> v)"
| "json_get v k =
     Inl (AttributeError (quoted (type_name v) @ '' object has no attribute '' @ quoted ''get''))"

subsection \<open>Rendering a body\<close>

text \<open>
  Starlette's \<^verbatim>\<open>JSONResponse\<close> renders its content when it is constructed, with
  \<^verbatim>\<open>json.dumps(content, ensure_ascii=False, allow_nan=False)\<close> encoded as UTF-8. That
  raises for a float that is not finite and for a string that holds a lone surrogate,
  anywhere in the content. Nesting deep enough to exhaust the interpreter's recursion
  limit is not modelled.
\<close>

fun is_byte :: "pychar \<Rightarrow> bool" where
  "is_byte (Byte c) = True"
| "is_byte (Surrogate n) = False"

fun is_finite :: "pyfloat \<Rightarrow> bool" where
  "is_finite (Finite x) = True"
| "is_finite PosInf = False"
| "is_finite NegInf = False"
| "is_finite NaN = False"

fun renders :: "json \<Rightarrow> bool" where
  "renders JNull = True"
| "renders (JBool b) = True"
| "renders (JInt i) = True"
| "renders (JFloat x) = is_finite x"
| "renders (JString s) = list_all is_byte s"
| "renders (JArr xs) = list_all renders xs"
| "renders (JObj d) = list_all (\<lambda>kv. list_all is_byte (fst kv) \<and> renders (snd kv)) d"

definition renders_dict :: "pydict \<Rightarrow> bool" where
  "renders_dict c = list_all (\<lambda>kv. renders (snd kv)) c"

datatype http_response =
    JSONResponse int pydict
  | PlainTextResponse int string

fun status :: "http_response \<Rightarrow> int" where
  "status (JSONResponse s b) = s"
| "status (PlainTextResponse s t) = s"

fun content :: "http_response \<Rightarrow> pydict" where
  "content (JSONResponse s b) = b"
| "content (PlainTextResponse s t) = []"

text \<open>
  \<^verbatim>\<open>JSONResponse(status_code=s, content=c)\<close>. The text of the exception raised for
  content that does not render is the interpreter's (its wording, and the position a
  \<^verbatim>\<open>UnicodeEncodeError\<close> reports): the model takes it from a parameter, as a
  function of the entries that do not render.
\<close>

type_synonym encode_error = "pydict \<Rightarrow> string"

definition json_response :: "encode_error \<Rightarrow> int \<Rightarrow> pydict \<Rightarrow> exn + http_response" where
  "json_response err s c =
     (if renders_dict c then Inr (JSONResponse s c)
      else Inl (EncodeError (err (filter (\<lambda>kv. \<not> renders (snd kv)) c))))"

text \<open>
  What a route hands to FastAPI: a dict, which FastAPI serialises after the route has
  returned, or a response object that is already rendered.
\<close>

datatype returned = Dict pydict | Response http_response

subsection \<open>Configuration, upstream and state\<close>

text \<open>
  Lines 26 to 28. The three \<^verbatim>\<open>RAILWAY_*\<close> variables are read by no route and are
  left out.
\<close>

record config =
  withings_mcp_url :: string
  admin_api_token :: string
  guardian_secret :: string

record post_request =
  url :: string
  headers :: "(string \<times> string) list"

text \<open>
  An \<^verbatim>\<open>httpx.Response\<close>, reduced to what the relay reads: \<^verbatim>\<open>status_code\<close>,
  \<^verbatim>\<open>text\<close> (a Python string: httpx decodes the body with the codec the upstream
  names, and codecs such as \<^verbatim>\<open>unicode_escape\<close> yield lone surrogates) and the outcome
  of \<^verbatim>\<open>json()\<close>, which is the parsed value or the message of the exception raised.
\<close>

record response =
  status_code :: int
  body_text :: pystr
  json_result :: "string + json"

text \<open>
  What \<^verbatim>\<open>client.post\<close> does: it returns a response or raises (DNS, connection
  refused, timeout, TLS), with the text of the exception.
\<close>

datatype upstream_outcome = Responded response | Failed string

type_synonym upstream = "post_request \<Rightarrow> upstream_outcome"

text \<open>
  The state threaded through a request: the outbound calls made so far, in order, and a
  counter of the invocations of \<^verbatim>\<open>refresh_withings_token\<close> (what a mock of the relay
  would count; the program itself does not keep it).
\<close>

record world =
  outbound :: "post_request list"
  relay_calls :: nat

definition post :: "upstream \<Rightarrow> post_request \<Rightarrow> world \<Rightarrow> (exn + response) \<times> world" where
  "post up rq w =
     ((case up rq of Responded r \<Rightarrow> Inr r | Failed m \<Rightarrow> Inl (TransportError m)),
      w\<lparr>outbound := outbound w @ [rq]\<rparr>)"

subsection \<open>The relay\<close>

definition admin_request :: "config \<Rightarrow> post_request" where
  "admin_request cfg =
     \<lparr>url = withings_mcp_url cfg @ ''/admin/token/refresh'',
      headers = [(''X-Admin-Token'', admin_api_token cfg)]\<rparr>"

text \<open>
  Lines 188 to 202: what the relay makes of a response. \<^verbatim>\<open>data.get('expires_at')\<close> is
  evaluated for the log line first, then again for the dict.
\<close>

definition classify :: "response \<Rightarrow> exn + pydict" where
  "classify r =
     (if status_code r = 200 then
        (case json_result r of
           Inl m \<Rightarrow> Inl (JSONDecodeError m)
         | Inr data \<Rightarrow>
             (case json_get data ''expires_at'' of
                Inl e \<Rightarrow> Inl e
              | Inr logged \<Rightarrow>
                  (case json_get data ''expires_at'' of
                     Inl e \<Rightarrow> Inl e
                   | Inr expires_at \<Rightarrow>
                       (case json_get data ''expires_in_seconds'' of
                          Inl e \<Rightarrow> Inl e
                        | Inr expires_in_seconds \<Rightarrow>
                            Inr [(''success'', JBool True),
                                 (''expires_at'', expires_at),
                                 (''expires_in_seconds'', expires_in_seconds)]))))
      else
        Inr [(''success'', JBool False),
             (''error'',
                JString (map Byte (''HTTP '' @ str_int (status_code r) @ '': '') @ body_text r))])"

text \<open>Lines 182 to 202: the body of the \<^verbatim>\<open>try\<close>.\<close>

definition refresh_try :: "config \<Rightarrow> upstream \<Rightarrow> world \<Rightarrow> (exn + pydict) \<times> world" where
  "refresh_try cfg up w =
     (case post up (admin_request cfg) w of
        (Inl e, w') \<Rightarrow> (Inl e, w')
      | (Inr r, w') \<Rightarrow> (classify r, w'))"

text \<open>
  Lines 168 to 209. The result is \<open>Inl\<close> when an exception leaves the function and
  \<open>Inr\<close> when it returns a dict.
\<close>

definition refresh_withings_token :: "config \<Rightarrow> upstream \<Rightarrow> world \<Rightarrow> (exn + pydict) \<times> world" where
  "refresh_withings_token cfg up w =
     (let w0 = w\<lparr>relay_calls := Suc (relay_calls w)\<rparr> in
      if admin_api_token cfg = [] then
        (Inr [(''success'', JBool False), (''error'', JStr ''ADMIN_API_TOKEN not configured'')], w0)
      else
        (case refresh_try cfg up w0 of
           (Inl e, w') \<Rightarrow> (Inr [(''success'', JBool False), (''error'', JStr (str_exn e))], w')
         | (Inr d, w') \<Rightarrow> (Inr d, w')))"

subsection \<open>The routes\<close>

text \<open>
  An inbound request: the host of \<^verbatim>\<open>request.client\<close>, which Starlette gives as
  \<^verbatim>\<open>None\<close> when the server supplied no client address, and the two headers the routes
  declare, \<^verbatim>\<open>None\<close> when absent.
\<close>

record request =
  client :: "string option"
  x_guardian_secret :: "string option"
  x_admin_token :: "string option"

text \<open>
  Lines 86 to 106: the body of the \<^verbatim>\<open>try\<close> of \<^verbatim>\<open>refresh_needed\<close>, after the call.
  On success the route returns a dict; on failure it constructs a \<^verbatim>\<open>JSONResponse\<close>,
  which is rendered there, inside the \<^verbatim>\<open>try\<close>.
\<close>

definition refresh_needed_try ::
  "encode_error \<Rightarrow> string \<Rightarrow> exn + pydict \<Rightarrow> exn + returned" where
  "refresh_needed_try err now r =
     (case r of
        Inl e \<Rightarrow> Inl e
      | Inr refresh_result \<Rightarrow>
          (case dict_index refresh_result ''success'' of
             Inl e \<Rightarrow> Inl e
           | Inr s \<Rightarrow>
               if truthy s then
                 Inr (Dict
                   [(''success'', JBool True),
                    (''message'', JStr ''Token refreshed successfully''),
                    (''expires_at'', dict_get refresh_result ''expires_at''),
                    (''timestamp'', JStr now)])
               else
                 (case json_response err 500
                    [(''success'', JBool False),
                     (''message'', JStr ''Token refresh failed''),
                     (''error'', dict_get refresh_result ''error''),
                     (''timestamp'', JStr now)] of
                    Inl e \<Rightarrow> Inl e
                  | Inr resp \<Rightarrow> Inr (Response resp))))"

text \<open>Lines 84 to 118: the \<^verbatim>\<open>try\<close> with its \<^verbatim>\<open>except Exception\<close>.\<close>

definition refresh_needed_outcome ::
  "encode_error \<Rightarrow> string \<Rightarrow> exn + pydict \<Rightarrow> exn + returned" where
  "refresh_needed_outcome err now r =
     (case refresh_needed_try err now r of
        Inr x \<Rightarrow> Inr x
      | Inl e \<Rightarrow>
          (case json_response err 500
             [(''success'', JBool False),
              (''message'', JStr ''Token refresh exception''),
              (''error'', JStr (str_exn e)),
              (''timestamp'', JStr now)] of
             Inl e' \<Rightarrow> Inl e'
           | Inr resp \<Rightarrow> Inr (Response resp)))"

text \<open>
  Lines 61 to 118. Building the log message of line 79 reads \<^verbatim>\<open>request.client.host\<close>,
  which raises when \<^verbatim>\<open>request.client\<close> is \<^verbatim>\<open>None\<close>.
\<close>

definition refresh_needed ::
  "config \<Rightarrow> upstream \<Rightarrow> encode_error \<Rightarrow> string \<Rightarrow> request \<Rightarrow> world
     \<Rightarrow> (exn + returned) \<times> world" where
  "refresh_needed cfg up err now rq w =
     (if guardian_secret cfg \<noteq> [] \<and> x_guardian_secret rq \<noteq> Some (guardian_secret cfg) then
        (case client rq of
           None \<Rightarrow>
             (Inl (AttributeError
                (quoted ''NoneType'' @ '' object has no attribute '' @ quoted ''host'')), w)
         | Some host \<Rightarrow> (Inl (HTTPException 401 ''Invalid guardian secret''), w))
      else
        (case refresh_withings_token cfg up w of
           (r, w') \<Rightarrow> (refresh_needed_outcome err now r, w')))"

text \<open>Lines 138 to 155: the body of the \<^verbatim>\<open>try\<close> of \<^verbatim>\<open>manual_refresh\<close>, after the call.\<close>

definition manual_refresh_try ::
  "encode_error \<Rightarrow> string \<Rightarrow> exn + pydict \<Rightarrow> exn + returned" where
  "manual_refresh_try err now r =
     (case r of
        Inl e \<Rightarrow> Inl e
      | Inr refresh_result \<Rightarrow>
          (case dict_index refresh_result ''success'' of
             Inl e \<Rightarrow> Inl e
           | Inr s \<Rightarrow>
               if truthy s then
                 Inr (Dict
                   [(''success'', JBool True),
                    (''message'', JStr ''Token refreshed successfully''),
                    (''expires_at'', dict_get refresh_result ''expires_at''),
                    (''timestamp'', JStr now)])
               else
                 (case json_response err 500
                    [(''success'', JBool False),
                     (''message'', JStr ''Token refresh failed''),
                     (''error'', dict_get refresh_result ''error'')] of
                    Inl e \<Rightarrow> Inl e
                  | Inr resp \<Rightarrow> Inr (Response resp))))"

text \<open>Lines 137 to 165.\<close>

definition manual_refresh_outcome ::
  "encode_error \<Rightarrow> string \<Rightarrow> exn + pydict \<Rightarrow> exn + returned" where
  "manual_refresh_outcome err now r =
     (case manual_refresh_try err now r of
        Inr x \<Rightarrow> Inr x
      | Inl e \<Rightarrow>
          (case json_response err 500
             [(''success'', JBool False),
              (''message'', JStr ''Exception during refresh''),
              (''error'', JStr (str_exn e))] of
             Inl e' \<Rightarrow> Inl e'
           | Inr resp \<Rightarrow> Inr (Response resp)))"

text \<open>Lines 122 to 165. The route takes the header only, not the request.\<close>

definition manual_refresh ::
  "config \<Rightarrow> upstream \<Rightarrow> encode_error \<Rightarrow> string \<Rightarrow> request \<Rightarrow> world
     \<Rightarrow> (exn + returned) \<times> world" where
  "manual_refresh cfg up err now rq w =
     (if guardian_secret cfg \<noteq> [] \<and> x_admin_token rq \<noteq> Some (guardian_secret cfg) then
        (Inl (HTTPException 401 ''Invalid admin token''), w)
      else
        (case refresh_withings_token cfg up w of
           (r, w') \<Rightarrow> (manual_refresh_outcome err now r, w')))"

text \<open>
  What FastAPI sends when a route returns or raises. A response object goes out as it
  is. A returned dict is serialised after the route has returned, outside its
  \<^verbatim>\<open>try\<close>: it goes out as a 200 when it renders, and when it does not the exception
  reaches the server-error middleware, which answers a plain-text 500. An
  \<^verbatim>\<open>HTTPException\<close> becomes a JSON body with the one key \<^verbatim>\<open>detail\<close>, any other
  exception the same plain-text 500.
\<close>

fun reply :: "exn + returned \<Rightarrow> http_response" where
  "reply (Inr (Response resp)) = resp"
| "reply (Inr (Dict d)) =
     (if renders_dict d then JSONResponse 200 d
      else PlainTextResponse 500 ''Internal Server Error'')"
| "reply (Inl (HTTPException s d)) = JSONResponse s [(''detail'', JStr d)]"
| "reply (Inl e) = PlainTextResponse 500 ''Internal Server Error''"

subsection \<open>The relay, equation by equation\<close>

text \<open>
  The result and the final state of the relay, read off the definitions: the state is
  threaded through, so each is reached by naming the pair the \<^verbatim>\<open>try\<close> returns.
\<close>

lemma refresh_try_world:
  "snd (refresh_try cfg up w) = w\<lparr>outbound := outbound w @ [admin_request cfg]\<rparr>"
  by (simp add: refresh_try_def post_def split: upstream_outcome.splits)

lemma refresh_try_result:
  "fst (refresh_try cfg up w) =
     (case up (admin_request cfg) of
        Responded r \<Rightarrow> classify r
      | Failed m \<Rightarrow> Inl (TransportError m))"
  by (simp add: refresh_try_def post_def split: upstream_outcome.splits)

lemma classify_shape:
  "(\<exists>e. classify r = Inl e) \<or>
   (\<exists>a b. classify r = Inr [(''success'', JBool True), (''expires_at'', a), (''expires_in_seconds'', b)]) \<or>
   (\<exists>m. classify r = Inr [(''success'', JBool False), (''error'', JString m)])"
  by (auto simp: classify_def split: sum.splits)

lemma relay_result:
  "fst (refresh_withings_token cfg up w) =
     (if admin_api_token cfg = [] then
        Inr [(''success'', JBool False), (''error'', JStr ''ADMIN_API_TOKEN not configured'')]
      else
        (case up (admin_request cfg) of
           Failed m \<Rightarrow> Inr [(''success'', JBool False), (''error'', JStr m)]
         | Responded r \<Rightarrow>
             (case classify r of
                Inl e \<Rightarrow> Inr [(''success'', JBool False), (''error'', JStr (str_exn e))]
              | Inr d \<Rightarrow> Inr d)))"
proof -
  let ?w0 = "w\<lparr>relay_calls := Suc (relay_calls w)\<rparr>"
  obtain r w' where rt: "refresh_try cfg up ?w0 = (r, w')"
    by (cases "refresh_try cfg up ?w0")
  have "r = fst (refresh_try cfg up ?w0)"
    by (simp add: rt)
  then have r: "r = (case up (admin_request cfg) of
        Responded r \<Rightarrow> classify r
      | Failed m \<Rightarrow> Inl (TransportError m))"
    by (simp only: refresh_try_result)
  show ?thesis
    by (simp add: refresh_withings_token_def Let_def rt r
        split: sum.splits upstream_outcome.splits)
qed

lemma relay_world:
  "snd (refresh_withings_token cfg up w) =
     (if admin_api_token cfg = [] then w\<lparr>relay_calls := Suc (relay_calls w)\<rparr>
      else w\<lparr>relay_calls := Suc (relay_calls w), outbound := outbound w @ [admin_request cfg]\<rparr>)"
proof -
  let ?w0 = "w\<lparr>relay_calls := Suc (relay_calls w)\<rparr>"
  obtain r w' where rt: "refresh_try cfg up ?w0 = (r, w')"
    by (cases "refresh_try cfg up ?w0")
  have "w' = snd (refresh_try cfg up ?w0)"
    by (simp add: rt)
  then have w': "w' = ?w0\<lparr>outbound := outbound ?w0 @ [admin_request cfg]\<rparr>"
    by (simp only: refresh_try_world)
  show ?thesis
    by (simp add: refresh_withings_token_def Let_def rt w' split: sum.splits)
qed

lemma relay_shape:
  "(\<exists>a b. fst (refresh_withings_token cfg up w) =
        Inr [(''success'', JBool True), (''expires_at'', a), (''expires_in_seconds'', b)]) \<or>
   (\<exists>m. fst (refresh_withings_token cfg up w) =
        Inr [(''success'', JBool False), (''error'', JString m)])"
proof (cases "admin_api_token cfg = []")
  case True
  then show ?thesis by (simp add: relay_result)
next
  case False
  show ?thesis
  proof (cases "up (admin_request cfg)")
    case (Failed m)
    with False show ?thesis by (simp add: relay_result)
  next
    case (Responded r)
    from classify_shape [of r] show ?thesis
      using False Responded by (auto simp: relay_result)
  qed
qed

subsection \<open>Rendering and the routes after the secret check\<close>

text \<open>
  Plain text always renders. So the \<^verbatim>\<open>JSONResponse\<close> of either \<^verbatim>\<open>except\<close> branch is
  always constructed, and a route that has passed its secret check returns: nothing the
  relay gives it makes it raise.
\<close>

lemma text_is_bytes: "list_all is_byte (map Byte s)"
  by (induction s) simp_all

lemma json_response_renders:
  "renders_dict c \<Longrightarrow> json_response err s c = Inr (JSONResponse s c)"
  by (simp add: json_response_def)

lemma refresh_needed_outcome_returns: "\<exists>x. refresh_needed_outcome err now r = Inr x"
  by (auto simp: refresh_needed_outcome_def json_response_def renders_dict_def text_is_bytes
      split: sum.splits)

lemma manual_refresh_outcome_returns: "\<exists>x. manual_refresh_outcome err now r = Inr x"
  by (auto simp: manual_refresh_outcome_def json_response_def renders_dict_def text_is_bytes
      split: sum.splits)


lemma outcome_of_failure:
  assumes "list_all is_byte m"
  shows "refresh_needed_outcome err now (Inr [(''success'', JBool False), (''error'', JString m)]) =
     Inr (Response (JSONResponse 500
       [(''success'', JBool False), (''message'', JStr ''Token refresh failed''),
        (''error'', JString m), (''timestamp'', JStr now)]))"
    and "manual_refresh_outcome err now (Inr [(''success'', JBool False), (''error'', JString m)]) =
     Inr (Response (JSONResponse 500
       [(''success'', JBool False), (''message'', JStr ''Token refresh failed''),
        (''error'', JString m)]))"
  using assms
  by (simp_all add: refresh_needed_outcome_def refresh_needed_try_def
      manual_refresh_outcome_def manual_refresh_try_def dict_index_def dict_get_def
      json_response_def renders_dict_def text_is_bytes)

lemma outcome_of_failure_not_rendered:
  assumes "\<not> list_all is_byte m"
  shows "refresh_needed_outcome err now (Inr [(''success'', JBool False), (''error'', JString m)]) =
     Inr (Response (JSONResponse 500
       [(''success'', JBool False), (''message'', JStr ''Token refresh exception''),
        (''error'', JStr (err [(''error'', JString m)])), (''timestamp'', JStr now)]))"
    and "manual_refresh_outcome err now (Inr [(''success'', JBool False), (''error'', JString m)]) =
     Inr (Response (JSONResponse 500
       [(''success'', JBool False), (''message'', JStr ''Exception during refresh''),
        (''error'', JStr (err [(''error'', JString m)]))]))"
  using assms
  by (simp_all add: refresh_needed_outcome_def refresh_needed_try_def
      manual_refresh_outcome_def manual_refresh_try_def dict_index_def dict_get_def
      json_response_def renders_dict_def text_is_bytes)

lemma failure_is_500:
  "status (reply (refresh_needed_outcome err now
      (Inr [(''success'', JBool False), (''error'', JString m)]))) = 500"
  "status (reply (manual_refresh_outcome err now
      (Inr [(''success'', JBool False), (''error'', JString m)]))) = 500"
  by (cases "list_all is_byte m";
      simp add: outcome_of_failure outcome_of_failure_not_rendered)+

lemma authorized_webhook:
  "guardian_secret cfg = [] \<or> x_guardian_secret rq = Some (guardian_secret cfg) \<Longrightarrow>
   fst (refresh_needed cfg up err now rq w) =
     refresh_needed_outcome err now (fst (refresh_withings_token cfg up w))"
  by (auto simp: refresh_needed_def split: prod.splits)

lemma authorized_manual:
  "guardian_secret cfg = [] \<or> x_admin_token rq = Some (guardian_secret cfg) \<Longrightarrow>
   fst (manual_refresh cfg up err now rq w) =
     manual_refresh_outcome err now (fst (refresh_withings_token cfg up w))"
  by (auto simp: manual_refresh_def split: prod.splits)

lemma authorized_webhook_world:
  "guardian_secret cfg = [] \<or> x_guardian_secret rq = Some (guardian_secret cfg) \<Longrightarrow>
   snd (refresh_needed cfg up err now rq w) = snd (refresh_withings_token cfg up w)"
  by (auto simp: refresh_needed_def split: prod.splits)

lemma authorized_manual_world:
  "guardian_secret cfg = [] \<or> x_admin_token rq = Some (guardian_secret cfg) \<Longrightarrow>
   snd (manual_refresh cfg up err now rq w) = snd (refresh_withings_token cfg up w)"
  by (auto simp: manual_refresh_def split: prod.splits)

lemma str_int_503: "str_int 503 = ''503''"
  by code_simp

section \<open>The claims\<close>

subsection \<open>C1: a wrong or missing guardian secret\<close>

text \<open>
  With a secret configured and the header absent or different, \<^verbatim>\<open>refresh_needed\<close>
  never reaches the relay: the state is returned as it was, so the counter of relay
  invocations and the list of outbound calls are unchanged. When the request carries a
  client address the route raises \<^verbatim>\<open>HTTPException(401)\<close>, which FastAPI answers with
  \<^verbatim>\<open>{"detail": "Invalid guardian secret"}\<close>.
\<close>

lemma refresh_needed_rejects:
  assumes "guardian_secret cfg \<noteq> []"
    and "x_guardian_secret rq \<noteq> Some (guardian_secret cfg)"
  shows "snd (refresh_needed cfg up err now rq w) = w"
    and "client rq = Some host \<Longrightarrow>
         reply (fst (refresh_needed cfg up err now rq w)) =
           JSONResponse 401 [(''detail'', JStr ''Invalid guardian secret'')]"
  using assms by (simp_all add: refresh_needed_def split: option.splits)

text \<open>
  C1 says that every request to \<^verbatim>\<open>POST /webhook/refresh-needed\<close> with a configured
  secret and an absent or wrong \<^verbatim>\<open>X-Guardian-Secret\<close> is answered 401 with body
  \<^verbatim>\<open>{"detail": "Invalid guardian secret"}\<close>, the relay never being invoked. The second
  half holds for every request (\<open>refresh_needed_rejects\<close>). The first does not: line 79
  formats \<^verbatim>\<open>request.client.host\<close> into the log message before line 80 raises the 401,
  and \<^verbatim>\<open>request.client\<close> is \<^verbatim>\<open>None\<close> when the server gave no client address. At
  such a request, with secret \<^verbatim>\<open>s3cret\<close> and no header, the route raises
  \<^verbatim>\<open>AttributeError\<close>, which is answered 500 \<^verbatim>\<open>Internal Server Error\<close>; the state is
  still unchanged. \<^verbatim>\<open>manual_refresh\<close> raises its 401 without reading the client.
\<close>

theorem refresh_needed_without_client:
  "refresh_needed
     \<lparr>withings_mcp_url = ''https://upstream.example'', admin_api_token = ''tok'',
      guardian_secret = ''s3cret''\<rparr>
     (\<lambda>rq. Failed ''All connection attempts failed'')
     (\<lambda>bad. ''Out of range float values are not JSON compliant'')
     ''2025-01-01T00:00:00''
     \<lparr>client = None, x_guardian_secret = None, x_admin_token = None\<rparr>
     \<lparr>outbound = [], relay_calls = 0\<rparr>
   = (Inl (AttributeError (quoted ''NoneType'' @ '' object has no attribute '' @ quoted ''host'')),
      \<lparr>outbound = [], relay_calls = 0\<rparr>)
   \<and> reply (Inl (AttributeError (quoted ''NoneType'' @ '' object has no attribute '' @ quoted ''host'')))
       = PlainTextResponse 500 ''Internal Server Error''"
  by (simp add: refresh_needed_def)

subsection \<open>C2: no admin token\<close>

text \<open>
  C2: when \<^verbatim>\<open>ADMIN_API_TOKEN\<close> is the empty string, the relay returns
  \<^verbatim>\<open>success=False\<close> with error exactly \<^verbatim>\<open>ADMIN_API_TOKEN not configured\<close>, and the list
  of outbound calls is what it was: no call is attempted.
\<close>

theorem relay_without_admin_token:
  "admin_api_token cfg = [] \<Longrightarrow>
     fst (refresh_withings_token cfg up w) =
       Inr [(''success'', JBool False), (''error'', JStr ''ADMIN_API_TOKEN not configured'')]
     \<and> outbound (snd (refresh_withings_token cfg up w)) = outbound w"
  by (simp add: relay_result relay_world)

text \<open>
  At an empty token and an upstream that would answer 200, nothing is sent.
\<close>

theorem relay_without_admin_token_witness:
  "fst (refresh_withings_token
          \<lparr>withings_mcp_url = ''https://upstream.example'', admin_api_token = '''',
           guardian_secret = ''s3cret''\<rparr>
          (\<lambda>rq. Responded \<lparr>status_code = 200, body_text = map Byte ''{}'',
                             json_result = Inr (JObj [])\<rparr>)
          \<lparr>outbound = [], relay_calls = 0\<rparr>) =
     Inr [(''success'', JBool False), (''error'', JStr ''ADMIN_API_TOKEN not configured'')]
   \<and> outbound (snd (refresh_withings_token
          \<lparr>withings_mcp_url = ''https://upstream.example'', admin_api_token = '''',
           guardian_secret = ''s3cret''\<rparr>
          (\<lambda>rq. Responded \<lparr>status_code = 200, body_text = map Byte ''{}'',
                             json_result = Inr (JObj [])\<rparr>)
          \<lparr>outbound = [], relay_calls = 0\<rparr>)) = []"
  using relay_without_admin_token
    [of "\<lparr>withings_mcp_url = ''https://upstream.example'', admin_api_token = '''',
           guardian_secret = ''s3cret''\<rparr>"
        "\<lambda>rq. Responded \<lparr>status_code = 200, body_text = map Byte ''{}'',
                             json_result = Inr (JObj [])\<rparr>"
        "\<lparr>outbound = [], relay_calls = 0\<rparr>"]
  by simp

subsection \<open>C3: an upstream status other than 200\<close>

lemma relay_on_non_200:
  assumes "admin_api_token cfg \<noteq> []"
    and "up (admin_request cfg) = Responded r"
    and "status_code r \<noteq> 200"
  shows "fst (refresh_withings_token cfg up w) =
     Inr [(''success'', JBool False),
          (''error'',
             JString (map Byte (''HTTP '' @ str_int (status_code r) @ '': '') @ body_text r))]"
  using assms by (simp add: relay_result classify_def)

text \<open>
  C3: when the upstream answers the relay's request (so the admin token is configured)
  with a status other than 200 and body text \<open>body_text r\<close>, the relay returns
  \<^verbatim>\<open>success=False\<close> with error \<^verbatim>\<open>HTTP <status>: \<close> followed by the text unchanged, and
  either route, once its secret check has passed, answers 500.
\<close>

theorem relay_non_200:
  assumes "admin_api_token cfg \<noteq> []"
    and "up (admin_request cfg) = Responded r"
    and "status_code r \<noteq> 200"
  shows "fst (refresh_withings_token cfg up w) =
           Inr [(''success'', JBool False),
                (''error'',
                   JString (map Byte (''HTTP '' @ str_int (status_code r) @ '': '')
                            @ body_text r))]
       \<and> (guardian_secret cfg = [] \<or> x_guardian_secret rq = Some (guardian_secret cfg) \<longrightarrow>
            status (reply (fst (refresh_needed cfg up err now rq w))) = 500)
       \<and> (guardian_secret cfg = [] \<or> x_admin_token rq = Some (guardian_secret cfg) \<longrightarrow>
            status (reply (fst (manual_refresh cfg up err now rq w))) = 500)"
proof -
  have relay: "fst (refresh_withings_token cfg up w) =
      Inr [(''success'', JBool False),
           (''error'',
              JString (map Byte (''HTTP '' @ str_int (status_code r) @ '': '') @ body_text r))]"
    using assms by (rule relay_on_non_200)
  have "status (reply (fst (refresh_needed cfg up err now rq w))) = 500"
    if "guardian_secret cfg = [] \<or> x_guardian_secret rq = Some (guardian_secret cfg)"
    using that by (simp only: authorized_webhook relay failure_is_500)
  moreover have "status (reply (fst (manual_refresh cfg up err now rq w))) = 500"
    if "guardian_secret cfg = [] \<or> x_admin_token rq = Some (guardian_secret cfg)"
    using that by (simp only: authorized_manual relay failure_is_500)
  ultimately show ?thesis
    using relay by blast
qed

text \<open>
  The spec's example: upstream answers 503 with \<^verbatim>\<open>service unavailable\<close>, the webhook
  is called with the right secret.
\<close>

theorem relay_non_200_witness:
  "fst (refresh_withings_token
          \<lparr>withings_mcp_url = ''https://upstream.example'', admin_api_token = ''tok'',
           guardian_secret = ''s3cret''\<rparr>
          (\<lambda>rq. Responded \<lparr>status_code = 503, body_text = map Byte ''service unavailable'',
                             json_result = Inl ''Expecting value''\<rparr>)
          \<lparr>outbound = [], relay_calls = 0\<rparr>) =
     Inr [(''success'', JBool False), (''error'', JStr ''HTTP 503: service unavailable'')]
   \<and> status (reply (fst (refresh_needed
          \<lparr>withings_mcp_url = ''https://upstream.example'', admin_api_token = ''tok'',
           guardian_secret = ''s3cret''\<rparr>
          (\<lambda>rq. Responded \<lparr>status_code = 503, body_text = map Byte ''service unavailable'',
                             json_result = Inl ''Expecting value''\<rparr>)
          (\<lambda>bad. ''Out of range float values are not JSON compliant'')
          ''2025-01-01T00:00:00''
          \<lparr>client = Some ''10.0.0.7'', x_guardian_secret = Some ''s3cret'', x_admin_token = None\<rparr>
          \<lparr>outbound = [], relay_calls = 0\<rparr>))) = 500"
  using relay_non_200
    [of "\<lparr>withings_mcp_url = ''https://upstream.example'', admin_api_token = ''tok'',
           guardian_secret = ''s3cret''\<rparr>"
        "\<lambda>rq. Responded \<lparr>status_code = 503, body_text = map Byte ''service unavailable'',
                             json_result = Inl ''Expecting value''\<rparr>"
        "\<lparr>status_code = 503, body_text = map Byte ''service unavailable'',
                             json_result = Inl ''Expecting value''\<rparr>"
        "\<lparr>outbound = [], relay_calls = 0\<rparr>"
        "\<lparr>client = Some ''10.0.0.7'', x_guardian_secret = Some ''s3cret'', x_admin_token = None\<rparr>"
        "\<lambda>bad. ''Out of range float values are not JSON compliant''"
        "''2025-01-01T00:00:00''"]
  by (simp add: str_int_503)

subsection \<open>C4: an upstream 200\<close>

text \<open>
  A 200 whose body parses to something other than an object has no \<^verbatim>\<open>get\<close>: the
  \<^verbatim>\<open>AttributeError\<close> is caught by the relay's \<^verbatim>\<open>except\<close> and reported as a failure.
\<close>

lemma relay_on_200_not_object:
  assumes "admin_api_token cfg \<noteq> []"
    and "up (admin_request cfg) = Responded r"
    and "status_code r = 200"
    and "json_result r = Inr v"
    and "\<nexists>D. v = JObj D"
  shows "fst (refresh_withings_token cfg up w) =
     Inr [(''success'', JBool False),
          (''error'', JStr (quoted (type_name v) @ '' object has no attribute '' @ quoted ''get''))]"
  using assms by (cases v) (simp_all add: relay_result classify_def)

lemma relay_on_200_object:
  assumes "admin_api_token cfg \<noteq> []"
    and "up (admin_request cfg) = Responded r"
    and "status_code r = 200"
    and "json_result r = Inr (JObj D)"
  shows "fst (refresh_withings_token cfg up w) =
           Inr [(''success'', JBool True),
                (''expires_at'',
                   case map_of D (map Byte ''expires_at'') of None \<Rightarrow> JNull | Some v \<Rightarrow> v),
                (''expires_in_seconds'',
                   case map_of D (map Byte ''expires_in_seconds'') of
                     None \<Rightarrow> JNull | Some v \<Rightarrow> v)]"
  using assms by (simp add: relay_result classify_def)

text \<open>
  C4 says that for every upstream 200 with a JSON body the relay returns
  \<^verbatim>\<open>success=True\<close> with the two fields passed through, null when absent. The JSON body
  \<^verbatim>\<open>[1, 2]\<close> is a list: \<^verbatim>\<open>data.get\<close> raises and the relay returns \<^verbatim>\<open>success=False\<close>.
\<close>

theorem relay_200_array:
  "fst (refresh_withings_token
          \<lparr>withings_mcp_url = ''https://upstream.example'', admin_api_token = ''tok'',
           guardian_secret = ''s3cret''\<rparr>
          (\<lambda>rq. Responded
             \<lparr>status_code = 200, body_text = map Byte ''[1, 2]'',
              json_result = Inr (JArr [JInt 1, JInt 2])\<rparr>)
          \<lparr>outbound = [], relay_calls = 0\<rparr>) =
     Inr [(''success'', JBool False),
          (''error'', JStr (quoted ''list'' @ '' object has no attribute '' @ quoted ''get''))]"
  by (simp add: relay_result classify_def admin_request_def)

text \<open>
  C4 as amended: when the upstream answers 200 and the body parses to a JSON object
  \<open>D\<close>, the relay returns \<^verbatim>\<open>success=True\<close> with \<^verbatim>\<open>expires_at\<close> and
  \<^verbatim>\<open>expires_in_seconds\<close> the values \<open>D\<close> has under these keys, whatever they are, and
  \<^verbatim>\<open>None\<close> for a key \<open>D\<close> lacks.
\<close>

theorem relay_200:
  assumes "admin_api_token cfg \<noteq> []"
    and "up (admin_request cfg) = Responded r"
    and "status_code r = 200"
    and "json_result r = Inr (JObj D)"
  shows "fst (refresh_withings_token cfg up w) =
           Inr [(''success'', JBool True),
                (''expires_at'',
                   case map_of D (map Byte ''expires_at'') of None \<Rightarrow> JNull | Some v \<Rightarrow> v),
                (''expires_in_seconds'',
                   case map_of D (map Byte ''expires_in_seconds'') of
                     None \<Rightarrow> JNull | Some v \<Rightarrow> v)]"
  using assms by (rule relay_on_200_object)

text \<open>
  An object with \<^verbatim>\<open>expires_at\<close> only: the string is passed on, the other field is null.
\<close>

theorem relay_200_witness:
  "fst (refresh_withings_token
          \<lparr>withings_mcp_url = ''https://upstream.example'', admin_api_token = ''tok'',
           guardian_secret = ''s3cret''\<rparr>
          (\<lambda>rq. Responded
             \<lparr>status_code = 200, body_text = map Byte ''(json)'',
              json_result =
                Inr (JObj [(map Byte ''expires_at'', JStr ''2025-01-01T00:00:00Z'')])\<rparr>)
          \<lparr>outbound = [], relay_calls = 0\<rparr>) =
     Inr [(''success'', JBool True),
          (''expires_at'', JStr ''2025-01-01T00:00:00Z''),
          (''expires_in_seconds'', JNull)]"
  using relay_200
    [of "\<lparr>withings_mcp_url = ''https://upstream.example'', admin_api_token = ''tok'',
           guardian_secret = ''s3cret''\<rparr>"
        "\<lambda>rq. Responded
             \<lparr>status_code = 200, body_text = map Byte ''(json)'',
              json_result =
                Inr (JObj [(map Byte ''expires_at'', JStr ''2025-01-01T00:00:00Z'')])\<rparr>"
        "\<lparr>status_code = 200, body_text = map Byte ''(json)'',
              json_result =
                Inr (JObj [(map Byte ''expires_at'', JStr ''2025-01-01T00:00:00Z'')])\<rparr>"
        "[(map Byte ''expires_at'', JStr ''2025-01-01T00:00:00Z'')]"
        "\<lparr>outbound = [], relay_calls = 0\<rparr>"]
  by simp

subsection \<open>C5: the relay always returns\<close>

text \<open>
  C5: for every configuration and every behaviour of the upstream, the relay returns
  one result dict, of one of the two shapes the module writes, and raises nothing. It
  is invoked once; it makes no outbound call when the token is empty and otherwise
  exactly one, the request to \<^verbatim>\<open>/admin/token/refresh\<close>. The result is fixed by the
  one branch taken: the precondition, \<^verbatim>\<open>client.post\<close> raising, a status other than
  200, or a 200 whose \<^verbatim>\<open>json()\<close> raises, whose body is not an object, or whose body
  is an object. An exception is reported as \<^verbatim>\<open>success=False\<close> with its text as error.
\<close>

theorem relay_total:
  "((\<exists>a b. fst (refresh_withings_token cfg up w) =
        Inr [(''success'', JBool True), (''expires_at'', a), (''expires_in_seconds'', b)])
    \<or> (\<exists>m. fst (refresh_withings_token cfg up w) =
        Inr [(''success'', JBool False), (''error'', JString m)]))
   \<and> relay_calls (snd (refresh_withings_token cfg up w)) = Suc (relay_calls w)
   \<and> outbound (snd (refresh_withings_token cfg up w)) =
       (if admin_api_token cfg = [] then outbound w else outbound w @ [admin_request cfg])
   \<and> (admin_api_token cfg = [] \<longrightarrow>
         fst (refresh_withings_token cfg up w) =
           Inr [(''success'', JBool False),
                (''error'', JStr ''ADMIN_API_TOKEN not configured'')])
   \<and> (\<forall>m. admin_api_token cfg \<noteq> [] \<longrightarrow> up (admin_request cfg) = Failed m \<longrightarrow>
         fst (refresh_withings_token cfg up w) =
           Inr [(''success'', JBool False), (''error'', JStr m)])
   \<and> (\<forall>r. admin_api_token cfg \<noteq> [] \<longrightarrow> up (admin_request cfg) = Responded r \<longrightarrow>
         status_code r \<noteq> 200 \<longrightarrow>
         fst (refresh_withings_token cfg up w) =
           Inr [(''success'', JBool False),
                (''error'',
                   JString (map Byte (''HTTP '' @ str_int (status_code r) @ '': '')
                            @ body_text r))])
   \<and> (\<forall>r m. admin_api_token cfg \<noteq> [] \<longrightarrow> up (admin_request cfg) = Responded r \<longrightarrow>
         status_code r = 200 \<longrightarrow> json_result r = Inl m \<longrightarrow>
         fst (refresh_withings_token cfg up w) =
           Inr [(''success'', JBool False), (''error'', JStr m)])
   \<and> (\<forall>r v. admin_api_token cfg \<noteq> [] \<longrightarrow> up (admin_request cfg) = Responded r \<longrightarrow>
         status_code r = 200 \<longrightarrow> json_result r = Inr v \<longrightarrow> (\<nexists>D. v = JObj D) \<longrightarrow>
         fst (refresh_withings_token cfg up w) =
           Inr [(''success'', JBool False),
                (''error'',
                   JStr (quoted (type_name v) @ '' object has no attribute '' @ quoted ''get''))])
   \<and> (\<forall>r D. admin_api_token cfg \<noteq> [] \<longrightarrow> up (admin_request cfg) = Responded r \<longrightarrow>
         status_code r = 200 \<longrightarrow> json_result r = Inr (JObj D) \<longrightarrow>
         fst (refresh_withings_token cfg up w) =
           Inr [(''success'', JBool True),
                (''expires_at'',
                   case map_of D (map Byte ''expires_at'') of None \<Rightarrow> JNull | Some v \<Rightarrow> v),
                (''expires_in_seconds'',
                   case map_of D (map Byte ''expires_in_seconds'') of
                     None \<Rightarrow> JNull | Some v \<Rightarrow> v)])"
proof -
  have shape: "(\<exists>a b. fst (refresh_withings_token cfg up w) =
        Inr [(''success'', JBool True), (''expires_at'', a), (''expires_in_seconds'', b)])
    \<or> (\<exists>m. fst (refresh_withings_token cfg up w) =
        Inr [(''success'', JBool False), (''error'', JString m)])"
    by (rule relay_shape)
  have calls: "relay_calls (snd (refresh_withings_token cfg up w)) = Suc (relay_calls w)"
    by (simp add: relay_world)
  have sent: "outbound (snd (refresh_withings_token cfg up w)) =
       (if admin_api_token cfg = [] then outbound w else outbound w @ [admin_request cfg])"
    by (simp add: relay_world)
  have unset: "fst (refresh_withings_token cfg up w) =
           Inr [(''success'', JBool False),
                (''error'', JStr ''ADMIN_API_TOKEN not configured'')]"
    if "admin_api_token cfg = []"
    using that by (simp add: relay_result)
  have raised: "fst (refresh_withings_token cfg up w) =
           Inr [(''success'', JBool False), (''error'', JStr m)]"
    if "admin_api_token cfg \<noteq> []" and "up (admin_request cfg) = Failed m" for m
    using that by (simp add: relay_result)
  have other: "fst (refresh_withings_token cfg up w) =
           Inr [(''success'', JBool False),
                (''error'',
                   JString (map Byte (''HTTP '' @ str_int (status_code r) @ '': '')
                            @ body_text r))]"
    if "admin_api_token cfg \<noteq> []" and "up (admin_request cfg) = Responded r"
      and "status_code r \<noteq> 200" for r
    using that by (rule relay_on_non_200)
  have unparsed: "fst (refresh_withings_token cfg up w) =
           Inr [(''success'', JBool False), (''error'', JStr m)]"
    if "admin_api_token cfg \<noteq> []" and "up (admin_request cfg) = Responded r"
      and "status_code r = 200" and "json_result r = Inl m" for r m
    using that by (simp add: relay_result classify_def)
  have not_object: "fst (refresh_withings_token cfg up w) =
           Inr [(''success'', JBool False),
                (''error'',
                   JStr (quoted (type_name v) @ '' object has no attribute '' @ quoted ''get''))]"
    if "admin_api_token cfg \<noteq> []" and "up (admin_request cfg) = Responded r"
      and "status_code r = 200" and "json_result r = Inr v" and "\<nexists>D. v = JObj D" for r v
    using that by (rule relay_on_200_not_object)
  have object: "fst (refresh_withings_token cfg up w) =
           Inr [(''success'', JBool True),
                (''expires_at'',
                   case map_of D (map Byte ''expires_at'') of None \<Rightarrow> JNull | Some v \<Rightarrow> v),
                (''expires_in_seconds'',
                   case map_of D (map Byte ''expires_in_seconds'') of
                     None \<Rightarrow> JNull | Some v \<Rightarrow> v)]"
    if "admin_api_token cfg \<noteq> []" and "up (admin_request cfg) = Responded r"
      and "status_code r = 200" and "json_result r = Inr (JObj D)" for r D
    using that by (rule relay_on_200_object)
  show ?thesis
    apply (intro conjI allI impI)
            apply (rule shape)
           apply (rule calls)
          apply (rule sent)
         apply (erule unset)
        apply (erule (1) raised)
       apply (erule (2) other)
      apply (erule (3) unparsed)
     apply (erule (4) not_object)
    apply (erule (3) object)
    done
qed

text \<open>
  A refused connection: one call is made, to the admin endpoint with the token.
\<close>

theorem relay_total_witness:
  "fst (refresh_withings_token
          \<lparr>withings_mcp_url = ''https://upstream.example'', admin_api_token = ''tok'',
           guardian_secret = ''s3cret''\<rparr>
          (\<lambda>rq. Failed ''All connection attempts failed'')
          \<lparr>outbound = [], relay_calls = 0\<rparr>) =
     Inr [(''success'', JBool False), (''error'', JStr ''All connection attempts failed'')]
   \<and> relay_calls (snd (refresh_withings_token
          \<lparr>withings_mcp_url = ''https://upstream.example'', admin_api_token = ''tok'',
           guardian_secret = ''s3cret''\<rparr>
          (\<lambda>rq. Failed ''All connection attempts failed'')
          \<lparr>outbound = [], relay_calls = 0\<rparr>)) = 1
   \<and> outbound (snd (refresh_withings_token
          \<lparr>withings_mcp_url = ''https://upstream.example'', admin_api_token = ''tok'',
           guardian_secret = ''s3cret''\<rparr>
          (\<lambda>rq. Failed ''All connection attempts failed'')
          \<lparr>outbound = [], relay_calls = 0\<rparr>)) =
       [\<lparr>url = ''https://upstream.example/admin/token/refresh'',
         headers = [(''X-Admin-Token'', ''tok'')]\<rparr>]"
  using relay_total
    [of "\<lparr>withings_mcp_url = ''https://upstream.example'', admin_api_token = ''tok'',
           guardian_secret = ''s3cret''\<rparr>"
        "\<lambda>rq. Failed ''All connection attempts failed''"
        "\<lparr>outbound = [], relay_calls = 0\<rparr>"]
  by (simp add: admin_request_def)

subsection \<open>C6: what \<^verbatim>\<open>/refresh\<close> compares its header with\<close>

text \<open>
  C6: with a secret configured, \<^verbatim>\<open>manual_refresh\<close> raises its 401 exactly when
  \<^verbatim>\<open>X-Admin-Token\<close> differs from \<^verbatim>\<open>GUARDIAN_SECRET\<close>. Whether either route rejects a
  request does not depend on \<^verbatim>\<open>ADMIN_API_TOKEN\<close>: replacing it by any other value
  changes no 401 into a pass and no pass into a 401. The only outbound request either
  route can make is the relay's, and the token is the value of its one header.
\<close>

theorem manual_refresh_checks_guardian_secret:
  assumes "guardian_secret cfg \<noteq> []"
  shows "(fst (manual_refresh cfg up err now rq w) = Inl (HTTPException 401 ''Invalid admin token''))
           = (x_admin_token rq \<noteq> Some (guardian_secret cfg))
     \<and> (\<forall>t. (\<exists>e. fst (manual_refresh (cfg\<lparr>admin_api_token := t\<rparr>) up err now rq w) = Inl e)
             = (\<exists>e. fst (manual_refresh cfg up err now rq w) = Inl e))
     \<and> (\<forall>t. (\<exists>e. fst (refresh_needed (cfg\<lparr>admin_api_token := t\<rparr>) up err now rq w) = Inl e)
             = (\<exists>e. fst (refresh_needed cfg up err now rq w) = Inl e))
     \<and> (outbound (snd (manual_refresh cfg up err now rq w)) = outbound w
        \<or> outbound (snd (manual_refresh cfg up err now rq w)) = outbound w @ [admin_request cfg])
     \<and> (outbound (snd (refresh_needed cfg up err now rq w)) = outbound w
        \<or> outbound (snd (refresh_needed cfg up err now rq w)) = outbound w @ [admin_request cfg])
     \<and> headers (admin_request cfg) = [(''X-Admin-Token'', admin_api_token cfg)]"
proof -
  have a: "(fst (manual_refresh cfg up err now rq w) = Inl (HTTPException 401 ''Invalid admin token''))
           = (x_admin_token rq \<noteq> Some (guardian_secret cfg))"
  proof (cases "x_admin_token rq = Some (guardian_secret cfg)")
    case True
    then have "fst (manual_refresh cfg up err now rq w) =
        manual_refresh_outcome err now (fst (refresh_withings_token cfg up w))"
      by (intro authorized_manual) simp
    with manual_refresh_outcome_returns [of err now "fst (refresh_withings_token cfg up w)"] True show ?thesis
      by auto
  next
    case False
    with assms show ?thesis by (simp add: manual_refresh_def)
  qed
  have gate_m: "(\<exists>e. fst (manual_refresh c up err now rq w) = Inl e)
      = (guardian_secret c \<noteq> [] \<and> x_admin_token rq \<noteq> Some (guardian_secret c))" for c
  proof (cases "guardian_secret c \<noteq> [] \<and> x_admin_token rq \<noteq> Some (guardian_secret c)")
    case True
    then show ?thesis by (simp add: manual_refresh_def)
  next
    case False
    then have "fst (manual_refresh c up err now rq w) =
        manual_refresh_outcome err now (fst (refresh_withings_token c up w))"
      by (intro authorized_manual) auto
    with manual_refresh_outcome_returns [of err now "fst (refresh_withings_token c up w)"] False show ?thesis
      by auto
  qed
  have gate_w: "(\<exists>e. fst (refresh_needed c up err now rq w) = Inl e)
      = (guardian_secret c \<noteq> [] \<and> x_guardian_secret rq \<noteq> Some (guardian_secret c))" for c
  proof (cases "guardian_secret c \<noteq> [] \<and> x_guardian_secret rq \<noteq> Some (guardian_secret c)")
    case True
    then show ?thesis by (simp add: refresh_needed_def split: option.splits)
  next
    case False
    then have "fst (refresh_needed c up err now rq w) =
        refresh_needed_outcome err now (fst (refresh_withings_token c up w))"
      by (intro authorized_webhook) auto
    with refresh_needed_outcome_returns [of err now "fst (refresh_withings_token c up w)"] False show ?thesis
      by auto
  qed
  have b: "(\<exists>e. fst (manual_refresh (cfg\<lparr>admin_api_token := t\<rparr>) up err now rq w) = Inl e)
             = (\<exists>e. fst (manual_refresh cfg up err now rq w) = Inl e)" for t
    by (simp only: gate_m) simp
  have c: "(\<exists>e. fst (refresh_needed (cfg\<lparr>admin_api_token := t\<rparr>) up err now rq w) = Inl e)
             = (\<exists>e. fst (refresh_needed cfg up err now rq w) = Inl e)" for t
    by (simp only: gate_w) simp
  have d: "outbound (snd (manual_refresh cfg up err now rq w)) = outbound w
        \<or> outbound (snd (manual_refresh cfg up err now rq w)) = outbound w @ [admin_request cfg]"
  proof (cases "guardian_secret cfg \<noteq> [] \<and> x_admin_token rq \<noteq> Some (guardian_secret cfg)")
    case True
    then show ?thesis by (simp add: manual_refresh_def)
  next
    case False
    then have "snd (manual_refresh cfg up err now rq w) = snd (refresh_withings_token cfg up w)"
      by (intro authorized_manual_world) auto
    then show ?thesis by (simp add: relay_world)
  qed
  have e: "outbound (snd (refresh_needed cfg up err now rq w)) = outbound w
        \<or> outbound (snd (refresh_needed cfg up err now rq w)) = outbound w @ [admin_request cfg]"
  proof (cases "guardian_secret cfg \<noteq> [] \<and> x_guardian_secret rq \<noteq> Some (guardian_secret cfg)")
    case True
    then show ?thesis by (simp add: refresh_needed_def split: option.splits)
  next
    case False
    then have "snd (refresh_needed cfg up err now rq w) = snd (refresh_withings_token cfg up w)"
      by (intro authorized_webhook_world) auto
    then show ?thesis by (simp add: relay_world)
  qed
  have f: "headers (admin_request cfg) = [(''X-Admin-Token'', admin_api_token cfg)]"
    by (simp add: admin_request_def)
  from a b c d e f show ?thesis by blast
qed

text \<open>
  A caller who presents the admin token itself, \<^verbatim>\<open>tok\<close>, where the secret is
  \<^verbatim>\<open>s3cret\<close>, is turned away.
\<close>

theorem manual_refresh_checks_guardian_secret_witness:
  "fst (manual_refresh
          \<lparr>withings_mcp_url = ''https://upstream.example'', admin_api_token = ''tok'',
           guardian_secret = ''s3cret''\<rparr>
          (\<lambda>rq. Failed ''All connection attempts failed'')
          (\<lambda>bad. ''Out of range float values are not JSON compliant'')
          ''2025-01-01T00:00:00''
          \<lparr>client = Some ''10.0.0.7'', x_guardian_secret = None, x_admin_token = Some ''tok''\<rparr>
          \<lparr>outbound = [], relay_calls = 0\<rparr>) =
     Inl (HTTPException 401 ''Invalid admin token'')"
  using manual_refresh_checks_guardian_secret
    [of "\<lparr>withings_mcp_url = ''https://upstream.example'', admin_api_token = ''tok'',
           guardian_secret = ''s3cret''\<rparr>"
        "\<lambda>rq. Failed ''All connection attempts failed''"
        "\<lambda>bad. ''Out of range float values are not JSON compliant''"
        "''2025-01-01T00:00:00''"
        "\<lparr>client = Some ''10.0.0.7'', x_guardian_secret = None, x_admin_token = Some ''tok''\<rparr>"
        "\<lparr>outbound = [], relay_calls = 0\<rparr>"]
  by simp

subsection \<open>C7: an empty secret\<close>

text \<open>
  C7: when \<^verbatim>\<open>GUARDIAN_SECRET\<close> is the empty string, both routes go on to the relay
  whatever the headers are: what the route returns is built from the relay's result, and
  the relay has been invoked once.
\<close>

theorem empty_secret_bypasses_auth:
  assumes "guardian_secret cfg = []"
  shows "fst (refresh_needed cfg up err now rq w) =
           refresh_needed_outcome err now (fst (refresh_withings_token cfg up w))
     \<and> fst (manual_refresh cfg up err now rq w) =
           manual_refresh_outcome err now (fst (refresh_withings_token cfg up w))
     \<and> relay_calls (snd (refresh_needed cfg up err now rq w)) = Suc (relay_calls w)
     \<and> relay_calls (snd (manual_refresh cfg up err now rq w)) = Suc (relay_calls w)"
  using assms
  by (simp add: authorized_webhook authorized_manual authorized_webhook_world
      authorized_manual_world relay_world)

text \<open>
  A request with a header that matches nothing, and no admin header at all.
\<close>

theorem empty_secret_bypasses_auth_witness:
  "relay_calls (snd (refresh_needed
          \<lparr>withings_mcp_url = ''https://upstream.example'', admin_api_token = ''tok'',
           guardian_secret = ''''\<rparr>
          (\<lambda>rq. Failed ''All connection attempts failed'')
          (\<lambda>bad. ''Out of range float values are not JSON compliant'')
          ''2025-01-01T00:00:00''
          \<lparr>client = Some ''10.0.0.7'', x_guardian_secret = Some ''wrong'', x_admin_token = None\<rparr>
          \<lparr>outbound = [], relay_calls = 0\<rparr>)) = 1
   \<and> relay_calls (snd (manual_refresh
          \<lparr>withings_mcp_url = ''https://upstream.example'', admin_api_token = ''tok'',
           guardian_secret = ''''\<rparr>
          (\<lambda>rq. Failed ''All connection attempts failed'')
          (\<lambda>bad. ''Out of range float values are not JSON compliant'')
          ''2025-01-01T00:00:00''
          \<lparr>client = Some ''10.0.0.7'', x_guardian_secret = Some ''wrong'', x_admin_token = None\<rparr>
          \<lparr>outbound = [], relay_calls = 0\<rparr>)) = 1"
  using empty_secret_bypasses_auth
    [of "\<lparr>withings_mcp_url = ''https://upstream.example'', admin_api_token = ''tok'',
           guardian_secret = ''''\<rparr>"
        "\<lambda>rq. Failed ''All connection attempts failed''"
        "\<lambda>bad. ''Out of range float values are not JSON compliant''"
        "''2025-01-01T00:00:00''"
        "\<lparr>client = Some ''10.0.0.7'', x_guardian_secret = Some ''wrong'', x_admin_token = None\<rparr>"
        "\<lparr>outbound = [], relay_calls = 0\<rparr>"]
  by simp

subsection \<open>C8: the bodies of the two routes\<close>

text \<open>
  C8 says that for every relay result and every exception out of the relay the body of
  \<^verbatim>\<open>/refresh\<close> is the body of the webhook, the \<^verbatim>\<open>timestamp\<close> of the 500 bodies apart,
  message strings included. At an exception the two \<^verbatim>\<open>except\<close> branches write different
  messages, so the body of \<^verbatim>\<open>/refresh\<close> is not the webhook's without its timestamp.
\<close>

theorem exception_message_differs:
  "map_of (content (reply (manual_refresh_outcome
       (\<lambda>bad. ''Out of range float values are not JSON compliant'')
       ''2025-01-01T00:00:00'' (Inl (TransportError ''boom''))))) ''message''
     = Some (JStr ''Exception during refresh'')
   \<and> map_of (content (reply (refresh_needed_outcome
       (\<lambda>bad. ''Out of range float values are not JSON compliant'')
       ''2025-01-01T00:00:00'' (Inl (TransportError ''boom''))))) ''message''
     = Some (JStr ''Token refresh exception'')
   \<and> content (reply (manual_refresh_outcome
       (\<lambda>bad. ''Out of range float values are not JSON compliant'')
       ''2025-01-01T00:00:00'' (Inl (TransportError ''boom''))))
     \<noteq> filter (\<lambda>kv. fst kv \<noteq> ''timestamp'')
         (content (reply (refresh_needed_outcome
            (\<lambda>bad. ''Out of range float values are not JSON compliant'')
            ''2025-01-01T00:00:00'' (Inl (TransportError ''boom'')))))"
  by (simp add: manual_refresh_outcome_def manual_refresh_try_def
      refresh_needed_outcome_def refresh_needed_try_def json_response_def renders_dict_def)

text \<open>
  C8 as amended. For a relay result with a \<^verbatim>\<open>success\<close> key: when the value is true both
  routes return the same dict, hence the same response, which is the 200 with that
  body when \<^verbatim>\<open>expires_at\<close> renders; when it is false and the
  result's \<^verbatim>\<open>error\<close> renders, both answer 500 and the body of \<^verbatim>\<open>/refresh\<close> is the
  webhook's with \<^verbatim>\<open>timestamp\<close> removed. When the \<^verbatim>\<open>except\<close> branch is taken (the relay
  raises, its result has no \<^verbatim>\<open>success\<close> key, or the 500 body cannot be rendered because
  of the result's \<^verbatim>\<open>error\<close>), both answer 500 with the same \<^verbatim>\<open>success\<close> and
  \<^verbatim>\<open>error\<close>; \<^verbatim>\<open>/refresh\<close> has no \<^verbatim>\<open>timestamp\<close>, and its message is
  \<^verbatim>\<open>Exception during refresh\<close> where the webhook's is \<^verbatim>\<open>Token refresh exception\<close>.
\<close>

theorem routes_agree:
  "(\<forall>d s. r = Inr d \<longrightarrow> map_of d ''success'' = Some s \<longrightarrow> truthy s \<longrightarrow>
       refresh_needed_outcome err now r =
         Inr (Dict
           [(''success'', JBool True), (''message'', JStr ''Token refreshed successfully''),
            (''expires_at'', dict_get d ''expires_at''), (''timestamp'', JStr now)])
       \<and> manual_refresh_outcome err now r = refresh_needed_outcome err now r
       \<and> (renders (dict_get d ''expires_at'') \<longrightarrow>
            status (reply (refresh_needed_outcome err now r)) = 200
            \<and> content (reply (manual_refresh_outcome err now r)) =
                content (reply (refresh_needed_outcome err now r))))
   \<and> (\<forall>d s. r = Inr d \<longrightarrow> map_of d ''success'' = Some s \<longrightarrow> \<not> truthy s \<longrightarrow>
         renders (dict_get d ''error'') \<longrightarrow>
       (\<exists>body. refresh_needed_outcome err now r = Inr (Response (JSONResponse 500 body))
          \<and> map_of body ''message'' = Some (JStr ''Token refresh failed'')
          \<and> manual_refresh_outcome err now r =
              Inr (Response (JSONResponse 500 (filter (\<lambda>kv. fst kv \<noteq> ''timestamp'') body)))))
   \<and> ((\<exists>e. r = Inl e) \<or> (\<exists>d. r = Inr d \<and> map_of d ''success'' = None)
       \<or> (\<exists>d s. r = Inr d \<and> map_of d ''success'' = Some s \<and> \<not> truthy s
              \<and> \<not> renders (dict_get d ''error'')) \<longrightarrow>
       (\<exists>x. refresh_needed_outcome err now r =
              Inr (Response (JSONResponse 500
                [(''success'', JBool False), (''message'', JStr ''Token refresh exception''),
                 (''error'', JStr x), (''timestamp'', JStr now)]))
          \<and> manual_refresh_outcome err now r =
              Inr (Response (JSONResponse 500
                [(''success'', JBool False), (''message'', JStr ''Exception during refresh''),
                 (''error'', JStr x)]))))"
proof -
  have ok: "refresh_needed_outcome err now r =
         Inr (Dict
           [(''success'', JBool True), (''message'', JStr ''Token refreshed successfully''),
            (''expires_at'', dict_get d ''expires_at''), (''timestamp'', JStr now)])
       \<and> manual_refresh_outcome err now r = refresh_needed_outcome err now r
       \<and> (renders (dict_get d ''expires_at'') \<longrightarrow>
            status (reply (refresh_needed_outcome err now r)) = 200
            \<and> content (reply (manual_refresh_outcome err now r)) =
                content (reply (refresh_needed_outcome err now r)))"
    if "r = Inr d" and "map_of d ''success'' = Some s" and "truthy s" for d s
    using that
    by (simp add: manual_refresh_outcome_def manual_refresh_try_def
        refresh_needed_outcome_def refresh_needed_try_def dict_index_def
        renders_dict_def text_is_bytes)
  have failed: "\<exists>body. refresh_needed_outcome err now r = Inr (Response (JSONResponse 500 body))
          \<and> map_of body ''message'' = Some (JStr ''Token refresh failed'')
          \<and> manual_refresh_outcome err now r =
              Inr (Response (JSONResponse 500 (filter (\<lambda>kv. fst kv \<noteq> ''timestamp'') body)))"
    if "r = Inr d" and "map_of d ''success'' = Some s" and "\<not> truthy s"
      and "renders (dict_get d ''error'')" for d s
    using that
    by (simp add: manual_refresh_outcome_def manual_refresh_try_def
        refresh_needed_outcome_def refresh_needed_try_def dict_index_def
        json_response_def renders_dict_def text_is_bytes)
  have raised: "\<exists>x. refresh_needed_outcome err now r =
              Inr (Response (JSONResponse 500
                [(''success'', JBool False), (''message'', JStr ''Token refresh exception''),
                 (''error'', JStr x), (''timestamp'', JStr now)]))
          \<and> manual_refresh_outcome err now r =
              Inr (Response (JSONResponse 500
                [(''success'', JBool False), (''message'', JStr ''Exception during refresh''),
                 (''error'', JStr x)]))"
    if "(\<exists>e. r = Inl e) \<or> (\<exists>d. r = Inr d \<and> map_of d ''success'' = None)
       \<or> (\<exists>d s. r = Inr d \<and> map_of d ''success'' = Some s \<and> \<not> truthy s
              \<and> \<not> renders (dict_get d ''error''))"
    using that
    by (auto simp: manual_refresh_outcome_def manual_refresh_try_def
        refresh_needed_outcome_def refresh_needed_try_def dict_index_def
        json_response_def renders_dict_def text_is_bytes)
  from ok failed raised show ?thesis by blast
qed

text \<open>
  The relay's result for an upstream 503: the two 500 bodies differ by the timestamp.
\<close>

theorem routes_agree_witness:
  "refresh_needed_outcome (\<lambda>bad. ''Out of range float values are not JSON compliant'')
     ''2025-01-01T00:00:00''
     (Inr [(''success'', JBool False), (''error'', JStr ''HTTP 503: service unavailable'')]) =
     Inr (Response (JSONResponse 500
       [(''success'', JBool False), (''message'', JStr ''Token refresh failed''),
        (''error'', JStr ''HTTP 503: service unavailable''),
        (''timestamp'', JStr ''2025-01-01T00:00:00'')]))
   \<and> manual_refresh_outcome (\<lambda>bad. ''Out of range float values are not JSON compliant'')
     ''2025-01-01T00:00:00''
     (Inr [(''success'', JBool False), (''error'', JStr ''HTTP 503: service unavailable'')]) =
     Inr (Response (JSONResponse 500
       [(''success'', JBool False), (''message'', JStr ''Token refresh failed''),
        (''error'', JStr ''HTTP 503: service unavailable'')]))"
  using routes_agree
    [of "Inr [(''success'', JBool False), (''error'', JStr ''HTTP 503: service unavailable'')]"
        "\<lambda>bad. ''Out of range float values are not JSON compliant''"
        "''2025-01-01T00:00:00''"]
  by (simp add: outcome_of_failure)

subsection \<open>C9: success and error\<close>

text \<open>
  C9: the relay's result either has \<^verbatim>\<open>success\<close> true and no \<^verbatim>\<open>error\<close> key, or
  \<^verbatim>\<open>success\<close> false and an \<^verbatim>\<open>error\<close> key holding a string.
\<close>

theorem relay_result_invariant:
  "\<exists>d. fst (refresh_withings_token cfg up w) = Inr d
     \<and> ((map_of d ''success'' = Some (JBool True) \<and> map_of d ''error'' = None)
        \<or> (map_of d ''success'' = Some (JBool False)
            \<and> (\<exists>m. map_of d ''error'' = Some (JString m))))"
  using relay_shape [of cfg up w] by auto

subsection \<open>C10: the responses of the webhook\<close>




end
